theory Spec2Isabelle
  imports Complex_Main
begin

section \<open>Python strings\<close>

text \<open>
  Symbols and error texts are Python \<open>str\<close> values; they are modelled as \<open>string\<close>
  (lists of 8-bit characters), which covers every ASCII ticker and message.
\<close>

definition endswith :: "string \<Rightarrow> string \<Rightarrow> bool" where
  \<comment> \<open>\<open>s.endswith(suf)\<close>\<close>
  "endswith s suf = (length suf \<le> length s \<and> drop (length s - length suf) s = suf)"

definition startswith :: "string \<Rightarrow> string \<Rightarrow> bool" where
  \<comment> \<open>\<open>s.startswith(pre)\<close>\<close>
  "startswith s pre = (take (length pre) s = pre)"

fun contains :: "string \<Rightarrow> string \<Rightarrow> bool" where
  \<comment> \<open>\<open>needle in hay\<close>\<close>
  "contains [] needle = (needle = [])"
| "contains (c # cs) needle = (startswith (c # cs) needle \<or> contains cs needle)"

definition lower_char :: "char \<Rightarrow> char" where
  "lower_char c =
     (case map_of (zip ''ABCDEFGHIJKLMNOPQRSTUVWXYZ'' ''abcdefghijklmnopqrstuvwxyz'') c of
        Some l \<Rightarrow> l
      | None \<Rightarrow> c)"

definition lower :: "string \<Rightarrow> string" where
  \<comment> \<open>\<open>s.lower()\<close> on ASCII text\<close>
  "lower s = map lower_char s"

fun remove_from :: "string \<Rightarrow> nat \<Rightarrow> string \<Rightarrow> string" where
  \<comment> \<open>scan left to right; \<open>k\<close> characters of a match found earlier are still to be dropped\<close>
  "remove_from old k [] = []"
| "remove_from old k (c # cs) =
     (if 0 < k then remove_from old (k - 1) cs
      else if startswith (c # cs) old then remove_from old (length old - 1) cs
      else c # remove_from old 0 cs)"

definition replace_empty :: "string \<Rightarrow> string \<Rightarrow> string" where
  \<comment> \<open>\<open>s.replace(old, '')\<close> for a non-empty \<open>old\<close>: every non-overlapping occurrence,
      found from the left, is deleted\<close>
  "replace_empty s old = remove_from old 0 s"

section \<open>Symbol mapping service (services/symbol\_mapping.py)\<close>

definition indian_to_us_mapping :: "(string \<times> string) list" where
  "indian_to_us_mapping =
    [(''RELIANCE.NS'', ''RELIANCE.BSE''),
     (''TCS.NS'', ''TCS.BSE''),
     (''HDFCBANK.NS'', ''HDB''),
     (''INFY.NS'', ''INFY''),
     (''HINDUNILVR.NS'', ''HINDUNILEVR.BSE''),
     (''ITC.NS'', ''ITC.BSE''),
     (''SBIN.NS'', ''SBIN.BSE''),
     (''BHARTIARTL.NS'', ''BHRT.BSE''),
     (''KOTAKBANK.NS'', ''KOTAKBANK.BSE''),
     (''LT.NS'', ''LTT.BSE''),
     (''WIPRO.NS'', ''WIT''),
     (''ASIANPAINT.NS'', ''ASIANPAINT.BSE''),
     (''MARUTI.NS'', ''MARUTI.BSE''),
     (''NESTLEIND.NS'', ''NESTLEIND.BSE''),
     (''TITAN.NS'', ''TITAN.BSE''),
     (''ULTRACEMCO.NS'', ''ULTRACEMCO.BSE''),
     (''BAJFINANCE.NS'', ''BAJFINANCE.BSE''),
     (''BAJAJFINSV.NS'', ''BAJAJFINSV.BSE''),
     (''HCLTECH.NS'', ''HCLTECH.BSE''),
     (''TECHM.NS'', ''TECHM.BSE'')]"

definition get_us_symbol :: "string \<Rightarrow> string option" where
  \<comment> \<open>\<open>self.indian_to_us_mapping.get(indian_symbol)\<close>\<close>
  "get_us_symbol indian_symbol = map_of indian_to_us_mapping indian_symbol"

definition is_indian_symbol :: "string \<Rightarrow> bool" where
  "is_indian_symbol symbol = (endswith symbol ''.NS'' \<or> endswith symbol ''.BSE'')"

definition base_symbol_of :: "string \<Rightarrow> string" where
  \<comment> \<open>\<open>symbol.replace('.NS', '').replace('.BSE', '')\<close>\<close>
  "base_symbol_of symbol = replace_empty (replace_empty symbol ''.NS'') ''.BSE''"

definition convert_for_alpha_vantage :: "string \<Rightarrow> string" where
  "convert_for_alpha_vantage symbol =
     (if is_indian_symbol symbol then
        (case get_us_symbol symbol of
           Some us_symbol \<Rightarrow> if us_symbol \<noteq> [] then us_symbol else base_symbol_of symbol
         | None \<Rightarrow> base_symbol_of symbol)
      else symbol)"

definition get_alpha_vantage_fallback_symbols :: "string \<Rightarrow> string list" where
  "get_alpha_vantage_fallback_symbols indian_symbol =
     (let fallbacks = (case get_us_symbol indian_symbol of
                         Some us_symbol \<Rightarrow> if us_symbol \<noteq> [] then [us_symbol] else []
                       | None \<Rightarrow> []);
          base_symbol = base_symbol_of indian_symbol
      in fallbacks @ [base_symbol, base_symbol @ ''.BSE'', base_symbol @ ''.NS''])"

definition get_fallback_symbols :: "string \<Rightarrow> string list" where
  \<comment> \<open>\<open>AlphaVantageService._get_fallback_symbols\<close>\<close>
  "get_fallback_symbols symbol =
     (if is_indian_symbol symbol then get_alpha_vantage_fallback_symbols symbol
      else [symbol])"

section \<open>Values exchanged with the providers\<close>

text \<open>
  Floating-point numbers: a finite double is modelled by the real number it denotes
  (rounding is not modelled), together with the three special values that numpy and pandas
  produce instead of raising: \<open>inf\<close>, \<open>-inf\<close> and \<open>nan\<close>.
\<close>

datatype fl = Num real | PInf | NInf | NaN

fun fneg :: "fl \<Rightarrow> fl" where
  "fneg (Num a) = Num (- a)"
| "fneg PInf = NInf"
| "fneg NInf = PInf"
| "fneg NaN = NaN"

fun fadd :: "fl \<Rightarrow> fl \<Rightarrow> fl" where
  "fadd (Num a) (Num b) = Num (a + b)"
| "fadd NaN y = NaN"
| "fadd x NaN = NaN"
| "fadd PInf NInf = NaN"
| "fadd NInf PInf = NaN"
| "fadd PInf y = PInf"
| "fadd NInf y = NInf"
| "fadd x PInf = PInf"
| "fadd x NInf = NInf"

definition fsub :: "fl \<Rightarrow> fl \<Rightarrow> fl" where
  "fsub x y = fadd x (fneg y)"

fun fmul :: "fl \<Rightarrow> fl \<Rightarrow> fl" where
  "fmul (Num a) (Num b) = Num (a * b)"
| "fmul NaN y = NaN"
| "fmul x NaN = NaN"
| "fmul (Num a) PInf = (if a = 0 then NaN else if 0 < a then PInf else NInf)"
| "fmul (Num a) NInf = (if a = 0 then NaN else if 0 < a then NInf else PInf)"
| "fmul PInf (Num b) = (if b = 0 then NaN else if 0 < b then PInf else NInf)"
| "fmul NInf (Num b) = (if b = 0 then NaN else if 0 < b then NInf else PInf)"
| "fmul PInf PInf = PInf"
| "fmul PInf NInf = NInf"
| "fmul NInf PInf = NInf"
| "fmul NInf NInf = PInf"

fun fdiv :: "fl \<Rightarrow> fl \<Rightarrow> fl" where
  \<comment> \<open>numpy division: a zero divisor gives \<open>inf\<close>, \<open>-inf\<close> or \<open>nan\<close>, never an exception\<close>
  "fdiv (Num a) (Num b) =
     (if b \<noteq> 0 then Num (a / b) else if 0 < a then PInf else if a < 0 then NInf else NaN)"
| "fdiv NaN y = NaN"
| "fdiv x NaN = NaN"
| "fdiv (Num a) PInf = Num 0"
| "fdiv (Num a) NInf = Num 0"
| "fdiv PInf (Num b) = (if 0 \<le> b then PInf else NInf)"
| "fdiv NInf (Num b) = (if 0 \<le> b then NInf else PInf)"
| "fdiv PInf y = NaN"
| "fdiv NInf y = NaN"

datatype pyval = VNone | VInt int | VFloat fl | VStr string

type_synonym pydict = "string \<rightharpoonup> pyval"

fun num_of :: "pyval \<Rightarrow> fl option" where
  \<comment> \<open>the number a value stands for in arithmetic; \<open>None\<close> where Python raises TypeError\<close>
  "num_of (VInt i) = Some (Num (of_int i))"
| "num_of (VFloat x) = Some x"
| "num_of VNone = None"
| "num_of (VStr s) = None"

definition dict_get :: "(string \<times> pyval) list \<Rightarrow> string \<Rightarrow> pyval \<Rightarrow> pyval" where
  \<comment> \<open>\<open>d.get(key, default)\<close>\<close>
  "dict_get d key dflt = (case map_of d key of Some v \<Rightarrow> v | None \<Rightarrow> dflt)"

definition dict_of_items :: "(string \<times> pyval) list \<Rightarrow> pydict" where
  \<comment> \<open>a dict filled by \<open>d[key] = value\<close> for each item in turn\<close>
  "dict_of_items items = foldl (\<lambda>m (k, v). m(k \<mapsto> v)) Map.empty items"

record bar =
  bar_open :: real
  bar_high :: real
  bar_low :: real
  bar_close :: real
  bar_volume :: int

text \<open>
  What one Yahoo Finance lookup (\<open>yf.Ticker(symbol)\<close>, its \<open>info\<close> and its \<open>history\<close>)
  gives: an exception, or the info dict and the rows of the history frame.
\<close>

datatype yf_reply = YfRaises | YfData "(string \<times> pyval) list" "bar list"

text \<open>
  What one Alpha Vantage quote call (\<open>ts.get_quote_endpoint\<close>) gives: an exception with its
  text, no data (\<open>None\<close> or an empty frame), or the items of the first row.
\<close>

datatype av_reply = AvRaises string | AvNoData | AvData "(string \<times> pyval) list"

datatype call = AlphaVantageCall string | YahooCall string

fun is_alpha_vantage_call :: "call \<Rightarrow> bool" where
  "is_alpha_vantage_call (AlphaVantageCall s) = True"
| "is_alpha_vantage_call (YahooCall s) = False"

section \<open>Hybrid resolver (services/alpha\_vantage\_hybrid.py)\<close>

definition hybrid_is_indian_symbol :: "string \<Rightarrow> bool" where
  \<comment> \<open>\<open>AlphaVantageHybrid._is_indian_symbol\<close>\<close>
  "hybrid_is_indian_symbol symbol = (endswith symbol ''.NS'' \<or> endswith symbol ''.BSE'')"

definition change_percent_of :: "fl \<Rightarrow> fl \<Rightarrow> pyval" where
  \<comment> \<open>\<open>(change / previous_close) * 100 if previous_close != 0 else 0\<close>\<close>
  "change_percent_of change previous_close =
     (if previous_close \<noteq> Num 0 then VFloat (fmul (fdiv change previous_close) (Num 100))
      else VInt 0)"

fun to_float :: "pyval \<Rightarrow> pyval option" where
  \<comment> \<open>\<open>float(v)\<close> on a number; \<open>None\<close> where it raises\<close>
  "to_float (VInt i) = Some (VFloat (Num (of_int i)))"
| "to_float (VFloat x) = Some (VFloat x)"
| "to_float VNone = None"
| "to_float (VStr s) = None"

definition get_yahoo_fallback_quote ::
  "(string \<Rightarrow> yf_reply) \<Rightarrow> string \<Rightarrow> string \<Rightarrow> pydict option" where
  \<comment> \<open>\<open>AlphaVantageHybrid._get_yahoo_fallback(symbol, 'quote')\<close>; every exception is
      caught and turned into \<open>None\<close>\<close>
  "get_yahoo_fallback_quote yf now_iso symbol =
     (case yf symbol of
        YfRaises \<Rightarrow> None
      | YfData info hist \<Rightarrow>
          if hist = [] \<or> info = [] then None
          else
            let current_price = Num (bar_close (last hist)) in
            (case num_of (dict_get info ''previousClose'' (VFloat current_price)) of
               None \<Rightarrow> None
             | Some previous_close \<Rightarrow>
                 let change = fsub current_price previous_close;
                     change_percent = change_percent_of change previous_close
                 in (case to_float change_percent of
                       None \<Rightarrow> None
                     | Some cp \<Rightarrow>
                         Some [''symbol'' \<mapsto> VStr symbol,
                               ''price'' \<mapsto> VFloat current_price,
                               ''change'' \<mapsto> VFloat change,
                               ''change_percent'' \<mapsto> cp,
                               ''volume'' \<mapsto> VInt (bar_volume (last hist)),
                               ''high'' \<mapsto> VFloat (Num (bar_high (last hist))),
                               ''low'' \<mapsto> VFloat (Num (bar_low (last hist))),
                               ''open'' \<mapsto> VFloat (Num (bar_open (last hist))),
                               ''previous_close'' \<mapsto> VFloat previous_close,
                               ''market_cap'' \<mapsto> dict_get info ''marketCap'' (VInt 0),
                               ''currency'' \<mapsto> dict_get info ''currency'' (VStr ''INR''),
                               ''last_updated'' \<mapsto> VStr now_iso,
                               ''source'' \<mapsto> VStr ''Yahoo Finance (Hybrid Fallback)''])))"

definition alpha_vantage_quote_dict :: "(string \<times> pyval) list \<Rightarrow> string \<Rightarrow> string \<Rightarrow> pydict" where
  \<comment> \<open>the row of the quote frame as a dict, then the three fields set on it\<close>
  "alpha_vantage_quote_dict row now_iso symbol =
     (dict_of_items row)(''symbol'' \<mapsto> VStr symbol,
                         ''last_updated'' \<mapsto> VStr now_iso,
                         ''source'' \<mapsto> VStr ''Alpha Vantage'')"

text \<open>
  \<open>AlphaVantageHybrid.get_quote\<close>. The two providers are parameters (\<open>av\<close>, \<open>yf\<close>); the
  result is paired with the provider calls made, in order. \<open>enabled\<close> is the instance's
  flag (an API key was found and the client package imported).
\<close>

definition get_quote ::
  "bool \<Rightarrow> (string \<Rightarrow> av_reply) \<Rightarrow> (string \<Rightarrow> yf_reply) \<Rightarrow> string \<Rightarrow> string
     \<Rightarrow> pydict option \<times> call list" where
  "get_quote enabled av yf now_iso symbol =
     (if hybrid_is_indian_symbol symbol then
        (get_yahoo_fallback_quote yf now_iso symbol, [YahooCall symbol])
      else if enabled then
        (case av symbol of
           AvData row \<Rightarrow>
             (Some (alpha_vantage_quote_dict row now_iso symbol), [AlphaVantageCall symbol])
         | AvNoData \<Rightarrow>
             (get_yahoo_fallback_quote yf now_iso symbol,
              [AlphaVantageCall symbol, YahooCall symbol])
         | AvRaises msg \<Rightarrow>
             (get_yahoo_fallback_quote yf now_iso symbol,
              [AlphaVantageCall symbol, YahooCall symbol]))
      else (get_yahoo_fallback_quote yf now_iso symbol, [YahooCall symbol]))"

section \<open>Alpha Vantage service (services/alpha\_vantage\_service.py)\<close>

text \<open>
  Times are \<open>datetime\<close> values, modelled as an integer count of microseconds; each
  \<open>datetime.now()\<close> of the source is a clock reading passed to the model.
\<close>

definition hours :: "int \<Rightarrow> int" where
  \<comment> \<open>\<open>timedelta(hours=n)\<close>\<close>
  "hours n = n * 3600000000"

text \<open>
  The service object: \<open>enabled\<close> (the field \<open>is_enabled\<close>, named after its getter), and the two attributes that \<open>_mark_rate_limited\<close>
  creates. An attribute \<open>rate_limited\<close> that does not exist yet is read (through
  \<open>hasattr\<close>) like \<open>False\<close>, a missing or \<open>None\<close> reset time like \<open>None\<close>.
\<close>

record alpha_vantage_service =
  is_enabled :: bool
  rate_limited :: bool
  rate_limit_reset_time :: "int option"

definition is_rate_limited :: "alpha_vantage_service \<Rightarrow> int \<Rightarrow> bool \<times> alpha_vantage_service" where
  \<comment> \<open>\<open>AlphaVantageService._is_rate_limited\<close>, with the clock reading \<open>now\<close>\<close>
  "is_rate_limited st now =
     (if \<not> rate_limited st then (False, st)
      else (case rate_limit_reset_time st of
              Some reset \<Rightarrow>
                if now > reset
                then (False, st\<lparr>rate_limited := False, rate_limit_reset_time := None\<rparr>)
                else (True, st)
            | None \<Rightarrow> (True, st)))"

definition mark_rate_limited :: "alpha_vantage_service \<Rightarrow> int \<Rightarrow> alpha_vantage_service" where
  \<comment> \<open>\<open>AlphaVantageService._mark_rate_limited\<close>\<close>
  "mark_rate_limited st now =
     st\<lparr>rate_limited := True, rate_limit_reset_time := Some (now + hours 24)\<rparr>"

definition get_fallback_quote ::
  "(string \<Rightarrow> yf_reply) \<Rightarrow> string \<Rightarrow> string \<Rightarrow> pydict option" where
  \<comment> \<open>\<open>AlphaVantageService._get_fallback_quote\<close>: the Yahoo Finance quote; the quotient
      by the previous close is taken unguarded, on numpy floats\<close>
  "get_fallback_quote yf now_iso symbol =
     (case yf symbol of
        YfRaises \<Rightarrow> None
      | YfData info hist \<Rightarrow>
          if info = [] then None
          else if hist = [] then None
          else
            let current_price = Num (bar_close (last hist));
                previous_close = dict_get info ''previousClose'' (VFloat current_price)
            in (case num_of previous_close of
                  None \<Rightarrow> None
                | Some pc \<Rightarrow>
                    Some [''symbol'' \<mapsto> VStr symbol,
                          ''price'' \<mapsto> VFloat current_price,
                          ''open'' \<mapsto> VFloat (Num (bar_open (last hist))),
                          ''high'' \<mapsto> VFloat (Num (bar_high (last hist))),
                          ''low'' \<mapsto> VFloat (Num (bar_low (last hist))),
                          ''volume'' \<mapsto> VInt (bar_volume (last hist)),
                          ''previous_close'' \<mapsto> previous_close,
                          ''change'' \<mapsto> VFloat (fsub current_price pc),
                          ''change_percent'' \<mapsto>
                             VFloat (fmul (fdiv (fsub current_price pc) pc) (Num 100)),
                          ''market_cap'' \<mapsto> dict_get info ''marketCap'' (VInt 0),
                          ''currency'' \<mapsto> dict_get info ''currency'' (VStr ''INR''),
                          ''last_updated'' \<mapsto> VStr now_iso,
                          ''source'' \<mapsto> VStr ''Yahoo Finance (Alpha Vantage Fallback)'']))"

definition is_rate_limit_error :: "string \<Rightarrow> bool" where
  \<comment> \<open>\<open>"rate limit" in error_msg.lower() or "25 requests per day" in error_msg\<close>\<close>
  "is_rate_limit_error error_msg =
     (contains (lower error_msg) ''rate limit'' \<or> contains error_msg ''25 requests per day'')"

datatype loop_outcome =
    Found string "(string \<times> pyval) list"
  | HitRateLimit
  | Exhausted

fun try_symbols :: "(string \<Rightarrow> av_reply) \<Rightarrow> string list \<Rightarrow> loop_outcome \<times> call list" where
  \<comment> \<open>the loop \<open>for try_symbol in symbols_to_try\<close> of \<open>get_stock_quote\<close>, with the calls made\<close>
  "try_symbols av [] = (Exhausted, [])"
| "try_symbols av (try_symbol # rest) =
     (case av try_symbol of
        AvData row \<Rightarrow> (Found try_symbol row, [AlphaVantageCall try_symbol])
      | AvNoData \<Rightarrow>
          (let (outcome, calls) = try_symbols av rest
           in (outcome, AlphaVantageCall try_symbol # calls))
      | AvRaises error_msg \<Rightarrow>
          if is_rate_limit_error error_msg then (HitRateLimit, [AlphaVantageCall try_symbol])
          else (let (outcome, calls) = try_symbols av rest
                in (outcome, AlphaVantageCall try_symbol # calls)))"

definition service_quote_dict ::
  "(string \<times> pyval) list \<Rightarrow> string \<Rightarrow> string \<Rightarrow> string \<Rightarrow> pydict" where
  "service_quote_dict row now_iso symbol try_symbol =
     (dict_of_items row)(''symbol'' \<mapsto> VStr symbol,
                         ''alpha_vantage_symbol'' \<mapsto> VStr try_symbol,
                         ''last_updated'' \<mapsto> VStr now_iso,
                         ''source'' \<mapsto> VStr ''Alpha Vantage'')"

text \<open>
  \<open>AlphaVantageService.get_stock_quote\<close>: the result, the service object afterwards and the
  provider calls made. \<open>t_check\<close> is the clock reading of \<open>_is_rate_limited\<close>, \<open>t_mark\<close>
  the one of \<open>_mark_rate_limited\<close>.
\<close>

definition get_stock_quote ::
  "alpha_vantage_service \<Rightarrow> (string \<Rightarrow> av_reply) \<Rightarrow> (string \<Rightarrow> yf_reply) \<Rightarrow> int \<Rightarrow> int
     \<Rightarrow> string \<Rightarrow> string \<Rightarrow> pydict option \<times> alpha_vantage_service \<times> call list" where
  "get_stock_quote st av yf t_check t_mark now_iso symbol =
     (if \<not> is_enabled st then (None, st, [])
      else
        (case is_rate_limited st t_check of
           (True, st1) \<Rightarrow> (get_fallback_quote yf now_iso symbol, st1, [YahooCall symbol])
         | (False, st1) \<Rightarrow>
             (case try_symbols av (get_fallback_symbols symbol) of
                (Found try_symbol row, calls) \<Rightarrow>
                  (Some (service_quote_dict row now_iso symbol try_symbol), st1, calls)
              | (HitRateLimit, calls) \<Rightarrow>
                  (get_fallback_quote yf now_iso symbol, mark_rate_limited st1 t_mark,
                   calls @ [YahooCall symbol])
              | (Exhausted, calls) \<Rightarrow>
                  (get_fallback_quote yf now_iso symbol, st1, calls @ [YahooCall symbol]))))"

section \<open>Angel One service (services/angel\_one\_service.py)\<close>

text \<open>
  The adapter after \<open>__init__\<close> has found its credentials: the token and its expiry.
  Every endpoint answers 503 instead of calling an adapter that is not enabled, so the
  data operations run on an enabled adapter only.
\<close>

record angel_one_service =
  auth_token :: "string option"
  token_expiry :: "int option"

text \<open>
  What the login request gives: an exception (network or HTTP error), a body without
  \<open>status\<close> or \<open>data\<close>, a body whose data has no \<open>jwtToken\<close>, or the token.
\<close>

datatype login_reply = LoginRaises | LoginRejected | LoginNoToken | LoginToken string

datatype angel_op =
    Quote string
  | Historical string string string
  | MarketStatus
  | Indices

datatype angel_event = LoginCall | DataCall angel_op

definition token_valid :: "angel_one_service \<Rightarrow> int \<Rightarrow> bool" where
  \<comment> \<open>\<open>self.auth_token and self.token_expiry and datetime.now() < self.token_expiry\<close>\<close>
  "token_valid st now =
     (case auth_token st of
        None \<Rightarrow> False
      | Some tok \<Rightarrow>
          tok \<noteq> [] \<and> (case token_expiry st of None \<Rightarrow> False | Some expiry \<Rightarrow> now < expiry))"

definition authenticate ::
  "angel_one_service \<Rightarrow> int \<Rightarrow> int \<Rightarrow> login_reply
     \<Rightarrow> bool \<times> angel_one_service \<times> angel_event list" where
  \<comment> \<open>\<open>AngelOneService._authenticate\<close>; \<open>t_check\<close> and \<open>t_set\<close> are its two clock readings\<close>
  "authenticate st t_check t_set login =
     (if token_valid st t_check then (True, st, [])
      else (case login of
              LoginToken tok \<Rightarrow>
                (True, st\<lparr>auth_token := Some tok, token_expiry := Some (t_set + hours 23)\<rparr>,
                 [LoginCall])
            | LoginNoToken \<Rightarrow> (False, st, [LoginCall])
            | LoginRejected \<Rightarrow> (False, st, [LoginCall])
            | LoginRaises \<Rightarrow> (False, st, [LoginCall])))"

text \<open>
  The four data operations. Each starts with \<open>if not self._authenticate(): return None\<close>;
  what follows (the request, and the reading of its answer) is the parameter \<open>fetch\<close>,
  which is \<open>None\<close> where the operation logs an error and returns \<open>None\<close>.
\<close>

definition get_market_status ::
  "angel_one_service \<Rightarrow> int \<Rightarrow> int \<Rightarrow> login_reply \<Rightarrow> (angel_op \<Rightarrow> pydict option)
     \<Rightarrow> pydict option \<times> angel_one_service \<times> angel_event list" where
  "get_market_status st t_check t_set login fetch =
     (case authenticate st t_check t_set login of
        (False, st', events) \<Rightarrow> (None, st', events)
      | (True, st', events) \<Rightarrow> (fetch MarketStatus, st', events @ [DataCall MarketStatus]))"

definition angel_get_stock_quote ::
  "angel_one_service \<Rightarrow> int \<Rightarrow> int \<Rightarrow> login_reply \<Rightarrow> (angel_op \<Rightarrow> pydict option) \<Rightarrow> string
     \<Rightarrow> pydict option \<times> angel_one_service \<times> angel_event list" where
  \<comment> \<open>\<open>AngelOneService.get_stock_quote\<close>\<close>
  "angel_get_stock_quote st t_check t_set login fetch symbol =
     (case authenticate st t_check t_set login of
        (False, st', events) \<Rightarrow> (None, st', events)
      | (True, st', events) \<Rightarrow> (fetch (Quote symbol), st', events @ [DataCall (Quote symbol)]))"

definition get_historical_data ::
  "angel_one_service \<Rightarrow> int \<Rightarrow> int \<Rightarrow> login_reply \<Rightarrow> (angel_op \<Rightarrow> pydict option)
     \<Rightarrow> string \<Rightarrow> string \<Rightarrow> string
     \<Rightarrow> pydict option \<times> angel_one_service \<times> angel_event list" where
  "get_historical_data st t_check t_set login fetch symbol interval period =
     (case authenticate st t_check t_set login of
        (False, st', events) \<Rightarrow> (None, st', events)
      | (True, st', events) \<Rightarrow>
          (fetch (Historical symbol interval period), st',
           events @ [DataCall (Historical symbol interval period)]))"

definition get_indices_data ::
  "angel_one_service \<Rightarrow> int \<Rightarrow> int \<Rightarrow> login_reply \<Rightarrow> (angel_op \<Rightarrow> pydict option)
     \<Rightarrow> pydict option \<times> angel_one_service \<times> angel_event list" where
  "get_indices_data st t_check t_set login fetch =
     (case authenticate st t_check t_set login of
        (False, st', events) \<Rightarrow> (None, st', events)
      | (True, st', events) \<Rightarrow> (fetch Indices, st', events @ [DataCall Indices]))"

fun data_operation ::
  "angel_one_service \<Rightarrow> int \<Rightarrow> int \<Rightarrow> login_reply \<Rightarrow> (angel_op \<Rightarrow> pydict option) \<Rightarrow> angel_op
     \<Rightarrow> pydict option \<times> angel_one_service \<times> angel_event list" where
  \<comment> \<open>the operation an endpoint invokes\<close>
  "data_operation st t_check t_set login fetch (Quote symbol) =
     angel_get_stock_quote st t_check t_set login fetch symbol"
| "data_operation st t_check t_set login fetch (Historical symbol interval period) =
     get_historical_data st t_check t_set login fetch symbol interval period"
| "data_operation st t_check t_set login fetch MarketStatus =
     get_market_status st t_check t_set login fetch"
| "data_operation st t_check t_set login fetch Indices =
     get_indices_data st t_check t_set login fetch"

text \<open>
  A run of the process: one data operation after the other on the same adapter object,
  each with its clock readings and the answer its login request would get.
\<close>

record angel_request =
  req_op :: angel_op
  req_t_check :: int
  req_t_set :: int
  req_login :: login_reply

fun run_requests ::
  "angel_one_service \<Rightarrow> (angel_op \<Rightarrow> pydict option) \<Rightarrow> angel_request list
     \<Rightarrow> pydict option list" where
  "run_requests st fetch [] = []"
| "run_requests st fetch (r # rs) =
     (case data_operation st (req_t_check r) (req_t_set r) (req_login r) fetch (req_op r) of
        (result, st', events) \<Rightarrow> result # run_requests st' fetch rs)"

fun login_fails :: "login_reply \<Rightarrow> bool" where
  "login_fails (LoginToken tok) = False"
| "login_fails LoginNoToken = True"
| "login_fails LoginRejected = True"
| "login_fails LoginRaises = True"

fun clock_ascending :: "int \<Rightarrow> angel_request list \<Rightarrow> bool" where
  \<comment> \<open>the clock readings of a run never go back\<close>
  "clock_ascending t [] = True"
| "clock_ascending t (r # rs) = (t \<le> req_t_check r \<and> clock_ascending (req_t_check r) rs)"

section \<open>Cache (models/database.py)\<close>

text \<open>
  Modelled from the spec: \<open>get_cached_data\<close> and \<open>cache_data\<close> are imported by
  main\_combined.py from models/database.py, which is not among the sources. The spec
  describes the cache as a map from keys to a value and an expiry time; \<open>put\<close> stores the
  value with the expiry \<open>ttl\<close> minutes after the current time, and \<open>get\<close> returns absent
  if the entry does not exist or the current time exceeds the stored expiry, without
  purging expired entries.
\<close>

type_synonym 'v cache = "string \<rightharpoonup> ('v \<times> int)"

definition minutes :: "int \<Rightarrow> int" where
  "minutes n = n * 60000000"

definition cache_data :: "'v cache \<Rightarrow> int \<Rightarrow> string \<Rightarrow> 'v \<Rightarrow> int \<Rightarrow> 'v cache" where
  \<comment> \<open>Modelled from the spec: \<open>put(k, v, ttl_minutes)\<close> at the clock reading \<open>now\<close>\<close>
  "cache_data c now key v expiry_minutes = c(key \<mapsto> (v, now + minutes expiry_minutes))"

definition get_cached_data :: "'v cache \<Rightarrow> int \<Rightarrow> string \<Rightarrow> 'v option \<times> 'v cache" where
  \<comment> \<open>Modelled from the spec: \<open>get(k)\<close> at the clock reading \<open>now\<close>; the value found and
      the cache afterwards\<close>
  "get_cached_data c now key =
     (case c key of
        None \<Rightarrow> (None, c)
      | Some (v, expiry) \<Rightarrow> if now > expiry then (None, c) else (Some v, c))"

section \<open>Indicators (services/hybrid\_data\_service.py, services/alpha\_vantage\_hybrid.py)\<close>

text \<open>
  A pandas float Series is a list of \<open>fl\<close> values, \<open>NaN\<close> being the absent value; the
  close prices themselves are taken to be finite, a list of reals. The pandas operations
  used by the source are modelled after the pandas documentation, in exact arithmetic.
\<close>

definition iloc_last :: "'a list \<Rightarrow> 'a option" where
  \<comment> \<open>\<open>series.iloc[-1]\<close>; \<open>None\<close> where it raises IndexError\<close>
  "iloc_last xs = (if xs = [] then None else Some (last xs))"

definition rolling_mean :: "nat \<Rightarrow> real list \<Rightarrow> fl list" where
  \<comment> \<open>\<open>series.rolling(window=n).mean()\<close>: the mean of the \<open>n\<close> values ending at each
      position, \<open>NaN\<close> where fewer than \<open>n\<close> values are there\<close>
  "rolling_mean n xs =
     map (\<lambda>i. if n = 0 \<or> i + 1 < n then NaN
               else Num (sum_list (take n (drop (i + 1 - n) xs)) / real n))
         [0..<length xs]"

definition sma :: "nat \<Rightarrow> real list \<Rightarrow> fl option" where
  \<comment> \<open>\<open>df['Close'].rolling(window=period).mean().iloc[-1]\<close>\<close>
  "sma period closes = iloc_last (rolling_mean period closes)"

definition ewm_alpha :: "nat \<Rightarrow> real" where
  \<comment> \<open>the smoothing factor of \<open>ewm(span=n)\<close>\<close>
  "ewm_alpha n = 2 / (real n + 1)"

definition ewm_mean :: "nat \<Rightarrow> real list \<Rightarrow> real list" where
  \<comment> \<open>\<open>series.ewm(span=n).mean()\<close> (\<open>adjust=True\<close>, the default): at position \<open>t\<close> the
      average of the values up to \<open>t\<close>, the value \<open>i\<close> steps back weighted \<open>(1 - \<alpha>) ^ i\<close>\<close>
  "ewm_mean n xs =
     map (\<lambda>t. (\<Sum>i\<le>t. (1 - ewm_alpha n) ^ i * xs ! (t - i))
                / (\<Sum>i\<le>t. (1 - ewm_alpha n) ^ i))
         [0..<length xs]"

definition ema :: "nat \<Rightarrow> real list \<Rightarrow> real option" where
  \<comment> \<open>\<open>df['Close'].ewm(span=period).mean().iloc[-1]\<close>; pandas raises ValueError for a
      span below 1\<close>
  "ema period closes = (if period < 1 then None else iloc_last (ewm_mean period closes))"

definition diff :: "real list \<Rightarrow> fl list" where
  \<comment> \<open>\<open>prices.diff()\<close>\<close>
  "diff prices =
     map (\<lambda>i. if i = 0 then NaN else Num (prices ! i - prices ! (i - 1))) [0..<length prices]"

fun positive_part :: "fl \<Rightarrow> real" where
  \<comment> \<open>an entry of \<open>delta.where(delta > 0, 0)\<close>\<close>
  "positive_part (Num d) = (if d > 0 then d else 0)"
| "positive_part PInf = 0"
| "positive_part NInf = 0"
| "positive_part NaN = 0"

fun negative_part :: "fl \<Rightarrow> real" where
  \<comment> \<open>an entry of \<open>-delta.where(delta < 0, 0)\<close>\<close>
  "negative_part (Num d) = (if d < 0 then - d else 0)"
| "negative_part PInf = 0"
| "negative_part NInf = 0"
| "negative_part NaN = 0"

definition rsi_series :: "real list \<Rightarrow> nat \<Rightarrow> fl list" where
  "rsi_series prices period =
     (let delta = diff prices;
          gain = rolling_mean period (map positive_part delta);
          loss = rolling_mean period (map negative_part delta);
          rs = map2 fdiv gain loss
      in map (\<lambda>r. fsub (Num 100) (fdiv (Num 100) (fadd (Num 1) r))) rs)"

definition calculate_rsi :: "real list \<Rightarrow> nat \<Rightarrow> fl option" where
  \<comment> \<open>\<open>HybridDataService._calculate_rsi\<close>; \<open>None\<close> where the bare \<open>except\<close> returns it\<close>
  "calculate_rsi prices period = iloc_last (rsi_series prices period)"

section \<open>Example inputs\<close>

definition sample_history :: "bar list" where
  "sample_history =
     [\<lparr>bar_open = 4, bar_high = 6, bar_low = 3, bar_close = 5, bar_volume = 10\<rparr>]"

definition yahoo_up :: "string \<Rightarrow> yf_reply" where
  "yahoo_up symbol = YfData [(''previousClose'', VInt 4)] sample_history"

definition yahoo_new_listing :: "string \<Rightarrow> yf_reply" where
  "yahoo_new_listing symbol = YfData [(''previousClose'', VInt 0)] sample_history"

definition yahoo_down :: "string \<Rightarrow> yf_reply" where
  "yahoo_down symbol = YfRaises"

definition valid_quote_provider :: "string \<Rightarrow> av_reply" where
  "valid_quote_provider symbol = AvData [(''05. price'', VStr ''189.5'')]"

definition rate_limited_provider :: "string \<Rightarrow> av_reply" where
  "rate_limited_provider symbol = AvRaises ''API Rate Limit reached''"

definition fresh_service :: alpha_vantage_service where
  "fresh_service = \<lparr>is_enabled = True, rate_limited = False, rate_limit_reset_time = None\<rparr>"

definition cooling_service :: alpha_vantage_service where
  "cooling_service =
     \<lparr>is_enabled = True, rate_limited = True, rate_limit_reset_time = Some (5 + hours 24)\<rparr>"

definition logged_out :: angel_one_service where
  "logged_out = \<lparr>auth_token = None, token_expiry = None\<rparr>"

definition logged_in :: angel_one_service where
  "logged_in = \<lparr>auth_token = Some ''jwt'', token_expiry = Some (1 + hours 23)\<rparr>"

definition sample_fetch :: "angel_op \<Rightarrow> pydict option" where
  "sample_fetch operation = Some [''source'' \<mapsto> VStr ''Angel One'']"

definition failing_requests :: "angel_request list" where
  "failing_requests =
     [\<lparr>req_op = Quote ''TCS.NS'', req_t_check = 0, req_t_set = 1, req_login = LoginRaises\<rparr>,
      \<lparr>req_op = Indices, req_t_check = 7, req_t_set = 8, req_login = LoginRejected\<rparr>]"

definition flat_prices :: "real list" where
  "flat_prices = [100, 100, 100, 100, 100, 100, 100, 100, 100, 100, 100, 100, 100, 100, 100]"

definition rising_prices :: "real list" where
  "rising_prices = [1, 2, 3, 4, 5, 6, 7, 8, 9, 10, 11, 12, 13, 14, 15]"

section \<open>Properties of the hybrid resolver\<close>

text \<open>
  C1. For every symbol ending in \<open>.NS\<close> or \<open>.BSE\<close>, the resolver's quote operation
  consults the Yahoo Finance adapter only: the calls made are exactly one Yahoo Finance
  call, none of them is an Alpha Vantage call, the outcome does not depend on what Alpha
  Vantage would answer, and a result that is present carries a source naming Yahoo Finance.
\<close>

theorem get_quote_indian_yahoo_only:
  assumes "endswith symbol ''.NS'' \<or> endswith symbol ''.BSE''"
  shows "snd (get_quote enabled av yf now_iso symbol) = [YahooCall symbol]
       \<and> (\<forall>c \<in> set (snd (get_quote enabled av yf now_iso symbol)). \<not> is_alpha_vantage_call c)
       \<and> get_quote enabled av yf now_iso symbol = get_quote enabled av' yf now_iso symbol
       \<and> (\<forall>q. fst (get_quote enabled av yf now_iso symbol) = Some q \<longrightarrow>
              q ''source'' = Some (VStr ''Yahoo Finance (Hybrid Fallback)''))"
proof -
  have ind: "hybrid_is_indian_symbol symbol"
    using assms by (simp add: hybrid_is_indian_symbol_def)
  have src: "q ''source'' = Some (VStr ''Yahoo Finance (Hybrid Fallback)'')"
    if "get_yahoo_fallback_quote yf now_iso symbol = Some q" for q
    using that
    by (auto simp: get_yahoo_fallback_quote_def Let_def
             split: yf_reply.splits option.splits if_splits)
  show ?thesis
    using ind src by (simp add: get_quote_def)
qed

theorem get_quote_indian_yahoo_only_witness:
  "(endswith ''RELIANCE.NS'' ''.NS'' \<or> endswith ''RELIANCE.NS'' ''.BSE'')
   \<and> snd (get_quote True valid_quote_provider yahoo_up ''2024-01-01T00:00:00'' ''RELIANCE.NS'')
       = [YahooCall ''RELIANCE.NS'']
   \<and> (\<exists>q. fst (get_quote True valid_quote_provider yahoo_up ''2024-01-01T00:00:00''
                  ''RELIANCE.NS'') = Some q
          \<and> q ''source'' = Some (VStr ''Yahoo Finance (Hybrid Fallback)''))"
  using get_quote_indian_yahoo_only
          [of "''RELIANCE.NS''" True valid_quote_provider yahoo_up "''2024-01-01T00:00:00''"]
  by (simp add: endswith_def get_quote_def hybrid_is_indian_symbol_def yahoo_up_def
                sample_history_def get_yahoo_fallback_quote_def dict_get_def
                change_percent_of_def fsub_def)

text \<open>
  C2, as stated, fails: on an instance that is not enabled (no API key), a symbol without
  Indian suffix is sent to Yahoo Finance at once and the Alpha Vantage adapter is never
  called, although it would have returned a valid quote.
\<close>

theorem get_quote_us_disabled_counterexample:
  "\<not> (endswith ''AAPL'' ''.NS'' \<or> endswith ''AAPL'' ''.BSE'')
   \<and> valid_quote_provider ''AAPL'' = AvData [(''05. price'', VStr ''189.5'')]
   \<and> snd (get_quote False valid_quote_provider yahoo_down ''2024-01-01T00:00:00'' ''AAPL'')
       = [YahooCall ''AAPL'']
   \<and> fst (get_quote False valid_quote_provider yahoo_down ''2024-01-01T00:00:00'' ''AAPL'')
       = None"
  by (simp add: endswith_def get_quote_def hybrid_is_indian_symbol_def yahoo_down_def
                valid_quote_provider_def get_yahoo_fallback_quote_def)

text \<open>
  C2, amended: on an enabled instance, for every symbol not ending in \<open>.NS\<close> or \<open>.BSE\<close>,
  the first call made is the Alpha Vantage call for that symbol; and whenever that call
  returns a valid quote, the result is present with source \<open>Alpha Vantage\<close> and the Alpha
  Vantage call is the only call made (Yahoo Finance is not called).
\<close>

theorem get_quote_us_alpha_vantage_first:
  assumes "\<not> (endswith symbol ''.NS'' \<or> endswith symbol ''.BSE'')" and "enabled"
  shows "(\<exists>rest. snd (get_quote enabled av yf now_iso symbol) = AlphaVantageCall symbol # rest)
       \<and> (\<forall>row. av symbol = AvData row \<longrightarrow>
              (\<exists>q. fst (get_quote enabled av yf now_iso symbol) = Some q
                    \<and> q ''source'' = Some (VStr ''Alpha Vantage''))
              \<and> snd (get_quote enabled av yf now_iso symbol) = [AlphaVantageCall symbol])"
  using assms
  by (cases "av symbol")
     (simp_all add: get_quote_def hybrid_is_indian_symbol_def alpha_vantage_quote_dict_def)

theorem get_quote_us_alpha_vantage_first_witness:
  "\<not> (endswith ''AAPL'' ''.NS'' \<or> endswith ''AAPL'' ''.BSE'')
   \<and> snd (get_quote True valid_quote_provider yahoo_down ''2024-01-01T00:00:00'' ''AAPL'')
       = [AlphaVantageCall ''AAPL'']
   \<and> (\<exists>q. fst (get_quote True valid_quote_provider yahoo_down ''2024-01-01T00:00:00'' ''AAPL'')
            = Some q
          \<and> q ''source'' = Some (VStr ''Alpha Vantage''))"
  using get_quote_us_alpha_vantage_first
          [of "''AAPL''" True valid_quote_provider yahoo_down "''2024-01-01T00:00:00''"]
  by (simp add: endswith_def valid_quote_provider_def)

text \<open>
  C10. In the hybrid service's Yahoo Finance quote fallback, whenever the previous close of
  the quote is zero, its \<open>change_percent\<close> field is 0: the quotient by the previous close
  is not taken.
\<close>

theorem yahoo_fallback_zero_previous_close:
  assumes "get_yahoo_fallback_quote yf now_iso symbol = Some q"
      and "q ''previous_close'' = Some (VFloat (Num 0))"
  shows "q ''change_percent'' = Some (VFloat (Num 0))"
  using assms
  by (auto simp: get_yahoo_fallback_quote_def Let_def change_percent_of_def
           split: yf_reply.splits option.splits if_splits)

theorem yahoo_fallback_zero_previous_close_witness:
  "\<exists>q. get_yahoo_fallback_quote yahoo_new_listing ''2024-01-01T00:00:00'' ''NEWCO.NS'' = Some q
       \<and> q ''previous_close'' = Some (VFloat (Num 0))
       \<and> q ''change'' = Some (VFloat (Num 5))
       \<and> q ''change_percent'' = Some (VFloat (Num 0))"
proof -
  obtain q where
    q: "get_yahoo_fallback_quote yahoo_new_listing ''2024-01-01T00:00:00'' ''NEWCO.NS'' = Some q"
    by (simp add: get_yahoo_fallback_quote_def yahoo_new_listing_def sample_history_def
                  dict_get_def change_percent_of_def fsub_def Let_def)
  have pc: "q ''previous_close'' = Some (VFloat (Num 0))"
    and ch: "q ''change'' = Some (VFloat (Num 5))"
    using q
    by (auto simp: get_yahoo_fallback_quote_def yahoo_new_listing_def sample_history_def
                   dict_get_def change_percent_of_def fsub_def Let_def)
  from yahoo_fallback_zero_previous_close [OF q pc] q pc ch show ?thesis
    by blast
qed

section \<open>Properties of the Alpha Vantage service\<close>

lemma try_symbols_rate_limit:
  assumes "AlphaVantageCall s \<in> set (snd (try_symbols av syms))"
      and "av s = AvRaises msg" and "is_rate_limit_error msg"
  shows "fst (try_symbols av syms) = HitRateLimit"
  using assms
proof (induction syms)
  case Nil
  then show ?case by simp
next
  case (Cons x xs)
  show ?case
  proof (cases "av x")
    case (AvRaises m)
    then show ?thesis using Cons
      by (cases "x = s") (auto split: prod.splits if_splits)
  next
    case AvNoData
    then show ?thesis using Cons
      by (cases "x = s") (auto split: prod.splits)
  next
    case (AvData row)
    then show ?thesis using Cons by auto
  qed
qed

lemma get_fallback_quote_source:
  "get_fallback_quote yf now_iso symbol = Some q \<Longrightarrow>
     q ''source'' = Some (VStr ''Yahoo Finance (Alpha Vantage Fallback)'')"
  by (auto simp: get_fallback_quote_def Let_def split: yf_reply.splits option.splits if_splits)

lemma get_stock_quote_calls_alpha_vantage:
  assumes "AlphaVantageCall s
             \<in> set (snd (snd (get_stock_quote st av yf t_check t_mark now_iso symbol)))"
  shows "is_enabled st \<and> fst (is_rate_limited st t_check) = False
       \<and> AlphaVantageCall s \<in> set (snd (try_symbols av (get_fallback_symbols symbol)))"
  using assms
  by (auto simp: get_stock_quote_def split: if_splits prod.splits bool.splits loop_outcome.splits)

lemma is_rate_limited_False_state:
  "is_rate_limited st t = (False, st1) \<Longrightarrow> is_enabled st1 = is_enabled st"
  by (auto simp: is_rate_limited_def split: if_splits option.splits)

text \<open>
  C3. If a quote call to the primary provider raises an error whose text contains
  \<open>rate limit\<close> in any letter case, then the service is marked rate limited with a reset
  time 24 hours after the clock reading of the mark, the result is the Yahoo Finance
  fallback quote (its source says so when it is present) and the Yahoo Finance call is
  the last call made; and every later quote request whose clock reading has not passed
  the reset time makes the Yahoo Finance call only and returns the fallback quote, the
  service staying marked.
\<close>

theorem rate_limit_error_starts_cooldown:
  assumes "AlphaVantageCall s
             \<in> set (snd (snd (get_stock_quote st av yf t_check t_mark now_iso symbol)))"
      and "av s = AvRaises error_msg"
      and "contains (lower error_msg) ''rate limit''"
  shows "(case get_stock_quote st av yf t_check t_mark now_iso symbol of
            (result, st', calls) \<Rightarrow>
               rate_limited st' \<and> rate_limit_reset_time st' = Some (t_mark + hours 24)
             \<and> result = get_fallback_quote yf now_iso symbol
             \<and> (\<forall>q. result = Some q \<longrightarrow>
                    q ''source'' = Some (VStr ''Yahoo Finance (Alpha Vantage Fallback)''))
             \<and> last calls = YahooCall symbol
             \<and> (\<forall>t_check2 t_mark2 av2 yf2 now_iso2 symbol2.
                    t_check2 \<le> t_mark + hours 24 \<longrightarrow>
                    get_stock_quote st' av2 yf2 t_check2 t_mark2 now_iso2 symbol2
                      = (get_fallback_quote yf2 now_iso2 symbol2, st', [YahooCall symbol2])))"
proof -
  from get_stock_quote_calls_alpha_vantage [OF assms(1)]
  have en: "is_enabled st" and nl: "fst (is_rate_limited st t_check) = False"
    and mem: "AlphaVantageCall s \<in> set (snd (try_symbols av (get_fallback_symbols symbol)))"
    by simp_all
  obtain st1 where st1: "is_rate_limited st t_check = (False, st1)"
    using nl by (cases "is_rate_limited st t_check") auto
  have en1: "is_enabled st1" using is_rate_limited_False_state [OF st1] en by simp
  have rl: "is_rate_limit_error error_msg"
    using assms(3) by (simp add: is_rate_limit_error_def)
  obtain calls where tr: "try_symbols av (get_fallback_symbols symbol) = (HitRateLimit, calls)"
    using try_symbols_rate_limit [OF mem assms(2) rl]
    by (cases "try_symbols av (get_fallback_symbols symbol)") auto
  have run: "get_stock_quote st av yf t_check t_mark now_iso symbol
               = (get_fallback_quote yf now_iso symbol, mark_rate_limited st1 t_mark,
                  calls @ [YahooCall symbol])"
    using en st1 tr by (simp add: get_stock_quote_def)
  have again: "get_stock_quote (mark_rate_limited st1 t_mark) av2 yf2 t_check2 t_mark2 now_iso2
                 symbol2
                 = (get_fallback_quote yf2 now_iso2 symbol2, mark_rate_limited st1 t_mark,
                    [YahooCall symbol2])"
    if "t_check2 \<le> t_mark + hours 24" for t_check2 t_mark2 av2 yf2 now_iso2 symbol2
    using that en1 by (simp add: get_stock_quote_def mark_rate_limited_def is_rate_limited_def)
  show ?thesis
    using run again get_fallback_quote_source [of yf now_iso symbol]
    by (simp add: mark_rate_limited_def)
qed

theorem rate_limit_error_starts_cooldown_witness:
  "AlphaVantageCall ''AAPL''
     \<in> set (snd (snd (get_stock_quote fresh_service rate_limited_provider yahoo_up 0 5
                        ''2024-01-01T00:00:00'' ''AAPL'')))
   \<and> rate_limited_provider ''AAPL'' = AvRaises ''API Rate Limit reached''
   \<and> contains (lower ''API Rate Limit reached'') ''rate limit''
   \<and> get_stock_quote fresh_service rate_limited_provider yahoo_up 0 5
        ''2024-01-01T00:00:00'' ''AAPL''
       = (get_fallback_quote yahoo_up ''2024-01-01T00:00:00'' ''AAPL'', cooling_service,
          [AlphaVantageCall ''AAPL'', YahooCall ''AAPL''])
   \<and> get_stock_quote cooling_service valid_quote_provider yahoo_up (5 + hours 24) (6 + hours 24)
        ''2024-01-02T00:00:00'' ''AAPL''
       = (get_fallback_quote yahoo_up ''2024-01-02T00:00:00'' ''AAPL'', cooling_service,
          [YahooCall ''AAPL''])"
proof -
  have low: "contains (lower ''API Rate Limit reached'') ''rate limit''"
    by (simp add: lower_def lower_char_def startswith_def)
  have run: "get_stock_quote fresh_service rate_limited_provider yahoo_up 0 5
               ''2024-01-01T00:00:00'' ''AAPL''
             = (get_fallback_quote yahoo_up ''2024-01-01T00:00:00'' ''AAPL'', cooling_service,
                [AlphaVantageCall ''AAPL'', YahooCall ''AAPL''])"
    using low
    by (simp add: get_stock_quote_def fresh_service_def cooling_service_def
                  is_rate_limited_def mark_rate_limited_def get_fallback_symbols_def
                  is_indian_symbol_def endswith_def rate_limited_provider_def
                  is_rate_limit_error_def)
  have mem: "AlphaVantageCall ''AAPL''
               \<in> set (snd (snd (get_stock_quote fresh_service rate_limited_provider yahoo_up 0 5
                                  ''2024-01-01T00:00:00'' ''AAPL'')))"
    by (simp add: run)
  have raises: "rate_limited_provider ''AAPL'' = AvRaises ''API Rate Limit reached''"
    by (simp add: rate_limited_provider_def)
  from rate_limit_error_starts_cooldown [OF mem raises low]
  have "get_stock_quote cooling_service valid_quote_provider yahoo_up (5 + hours 24)
          (6 + hours 24) ''2024-01-02T00:00:00'' ''AAPL''
        = (get_fallback_quote yahoo_up ''2024-01-02T00:00:00'' ''AAPL'', cooling_service,
           [YahooCall ''AAPL''])"
    by (simp add: run)
  with mem raises low run show ?thesis by blast
qed

text \<open>
  C8 fails on the code for a symbol in which \<open>.NS\<close> or \<open>.BSE\<close> also occurs before the
  suffix: \<open>replace\<close> deletes every occurrence, so for \<open>X.NS.BSE\<close> the candidates are built
  from \<open>X\<close> and not from the ticker without its suffix, \<open>X.NS\<close>.
\<close>

theorem fallback_symbols_interior_suffix:
  "is_indian_symbol ''X.NS.BSE''
   \<and> get_us_symbol ''X.NS.BSE'' = None
   \<and> get_fallback_symbols ''X.NS.BSE'' = [''X'', ''X.BSE'', ''X.NS'']"
  by (simp add: get_fallback_symbols_def is_indian_symbol_def endswith_def
        get_alpha_vantage_fallback_symbols_def get_us_symbol_def indian_to_us_mapping_def
        base_symbol_of_def replace_empty_def startswith_def)

text \<open>
  Where the ticker before the suffix contains no dot, the candidates are the ones C8 lists;
  and a symbol without Indian suffix is its own single candidate.
\<close>

lemma remove_from_no_dot:
  "CHR ''.'' \<notin> set b \<Longrightarrow> hd old = CHR ''.'' \<Longrightarrow> old \<noteq> [] \<Longrightarrow> remove_from old 0 b = b"
  by (induction b) (auto simp: startswith_def take_Cons' neq_Nil_conv split: if_splits)

lemma remove_from_skip: "remove_from old (length xs) (xs @ ys) = remove_from old 0 ys"
  by (induction xs) auto

lemma remove_from_suffix:
  assumes "CHR ''.'' \<notin> set b" and "hd old = CHR ''.''" and "old \<noteq> []"
  shows "remove_from old 0 (b @ old) = b"
  using assms
proof (induction b)
  case Nil
  obtain c cs where old: "old = c # cs" using Nil(3) by (cases old) auto
  have "remove_from old (length cs) (cs @ []) = remove_from old 0 []"
    by (rule remove_from_skip)
  then show ?case using old by (simp add: startswith_def)
next
  case (Cons a b)
  then show ?case
    by (auto simp: startswith_def take_Cons' neq_Nil_conv split: if_splits)
qed

lemma remove_from_other_suffix:
  assumes "CHR ''.'' \<notin> set b"
  shows "remove_from ''.NS'' 0 (b @ ''.BSE'') = b @ ''.BSE''"
  using assms by (induction b) (auto simp: startswith_def)

lemma mapped_symbol_nonempty: "get_us_symbol s = Some m \<Longrightarrow> m \<noteq> []"
  by (auto simp: get_us_symbol_def indian_to_us_mapping_def split: if_splits)

lemma base_symbol_of_NS:
  "CHR ''.'' \<notin> set b \<Longrightarrow> base_symbol_of (b @ ''.NS'') = b"
  using remove_from_suffix [of b "''.NS''"] remove_from_no_dot [of b "''.BSE''"]
  by (simp add: base_symbol_of_def replace_empty_def)

lemma base_symbol_of_BSE:
  "CHR ''.'' \<notin> set b \<Longrightarrow> base_symbol_of (b @ ''.BSE'') = b"
  using remove_from_suffix [of b "''.BSE''"] remove_from_other_suffix [of b]
  by (simp add: base_symbol_of_def replace_empty_def)

lemma fallback_symbols_plain_ticker:
  assumes "CHR ''.'' \<notin> set b" and "s = b @ ''.NS'' \<or> s = b @ ''.BSE''"
  shows "get_fallback_symbols s =
           (case get_us_symbol s of Some m \<Rightarrow> [m] | None \<Rightarrow> []) @ [b, b @ ''.BSE'', b @ ''.NS'']"
proof -
  have ind: "is_indian_symbol s"
    using assms(2) by (auto simp: is_indian_symbol_def endswith_def)
  have base: "base_symbol_of s = b"
    using assms base_symbol_of_NS base_symbol_of_BSE by auto
  show ?thesis
    using ind base mapped_symbol_nonempty [of s]
    by (auto simp: get_fallback_symbols_def get_alpha_vantage_fallback_symbols_def Let_def
             split: option.splits)
qed

lemma fallback_symbols_not_indian:
  "\<not> (endswith s ''.NS'' \<or> endswith s ''.BSE'') \<Longrightarrow> get_fallback_symbols s = [s]"
  by (simp add: get_fallback_symbols_def is_indian_symbol_def)

section \<open>Properties of the Angel One service\<close>

lemma data_operation_unfold:
  "data_operation st t_check t_set login fetch operation =
     (case authenticate st t_check t_set login of
        (False, st', events) \<Rightarrow> (None, st', events)
      | (True, st', events) \<Rightarrow> (fetch operation, st', events @ [DataCall operation]))"
  by (cases operation)
     (auto simp: angel_get_stock_quote_def get_historical_data_def get_market_status_def
                 get_indices_data_def)

lemma token_stays_invalid:
  "\<not> token_valid st t \<Longrightarrow> t \<le> t' \<Longrightarrow> \<not> token_valid st t'"
  by (auto simp: token_valid_def split: option.splits)

lemma failed_authentication:
  "\<not> token_valid st t_check \<Longrightarrow> login_fails login \<Longrightarrow>
     authenticate st t_check t_set login = (False, st, [LoginCall])"
  by (cases login) (simp_all add: authenticate_def)

lemma run_requests_all_absent:
  assumes "\<not> token_valid st t0" and "clock_ascending t0 reqs"
      and "\<forall>r \<in> set reqs. login_fails (req_login r)"
  shows "run_requests st fetch reqs = replicate (length reqs) None"
  using assms
proof (induction reqs arbitrary: t0)
  case Nil
  then show ?case by simp
next
  case (Cons r rs)
  have inv: "\<not> token_valid st (req_t_check r)"
    using Cons.prems(1,2) token_stays_invalid by auto
  have auth: "authenticate st (req_t_check r) (req_t_set r) (req_login r) = (False, st, [LoginCall])"
    using inv Cons.prems(3) by (simp add: failed_authentication)
  have "run_requests st fetch rs = replicate (length rs) None"
    using Cons.IH [OF inv] Cons.prems(2,3) by simp
  then show ?case
    using auth by (simp add: data_operation_unfold)
qed

text \<open>
  C9. Every Angel One data operation (quote, historical, market status, indices) starts
  with the authentication step. With a valid unexpired token the data request is made at
  once. Without one a credential login is performed first; when it succeeds the token is
  stored with an expiry 23 hours after the clock reading, and the data request follows;
  when authentication fails the operation returns \<open>None\<close>, makes no data request and
  leaves the adapter as it was. So from an adapter without valid token, every operation of
  a run in which no login succeeds returns \<open>None\<close>.
\<close>

theorem data_operation_authenticates_first:
  "(case data_operation st t_check t_set login fetch operation of
      (result, st', events) \<Rightarrow>
        (token_valid st t_check \<longrightarrow>
           result = fetch operation \<and> st' = st \<and> events = [DataCall operation])
      \<and> (\<not> token_valid st t_check \<longrightarrow>
           (\<exists>rest. events = LoginCall # rest)
           \<and> (\<forall>tok. login = LoginToken tok \<longrightarrow>
                  auth_token st' = Some tok \<and> token_expiry st' = Some (t_set + hours 23)
                  \<and> result = fetch operation \<and> events = [LoginCall, DataCall operation])
           \<and> (login_fails login \<longrightarrow>
                  result = None \<and> st' = st \<and> events = [LoginCall]))
      \<and> (\<not> fst (authenticate st t_check t_set login) \<longrightarrow> result = None))
   \<and> (\<not> token_valid st t_check \<and> clock_ascending t_check reqs
        \<and> (\<forall>r \<in> set reqs. login_fails (req_login r))
       \<longrightarrow> run_requests st fetch reqs = replicate (length reqs) None)"
proof -
  have seq: "\<not> token_valid st t_check \<and> clock_ascending t_check reqs
        \<and> (\<forall>r \<in> set reqs. login_fails (req_login r))
       \<longrightarrow> run_requests st fetch reqs = replicate (length reqs) None"
    using run_requests_all_absent by blast
  have one: "(case data_operation st t_check t_set login fetch operation of
      (result, st', events) \<Rightarrow>
        (token_valid st t_check \<longrightarrow>
           result = fetch operation \<and> st' = st \<and> events = [DataCall operation])
      \<and> (\<not> token_valid st t_check \<longrightarrow>
           (\<exists>rest. events = LoginCall # rest)
           \<and> (\<forall>tok. login = LoginToken tok \<longrightarrow>
                  auth_token st' = Some tok \<and> token_expiry st' = Some (t_set + hours 23)
                  \<and> result = fetch operation \<and> events = [LoginCall, DataCall operation])
           \<and> (login_fails login \<longrightarrow>
                  result = None \<and> st' = st \<and> events = [LoginCall]))
      \<and> (\<not> fst (authenticate st t_check t_set login) \<longrightarrow> result = None))"
    by (cases login) (auto simp: data_operation_unfold authenticate_def)
  from one seq show ?thesis by blast
qed

theorem data_operation_authenticates_first_witness:
  "\<not> token_valid logged_out 0
   \<and> data_operation logged_out 0 1 (LoginToken ''jwt'') sample_fetch (Quote ''TCS.NS'')
       = (sample_fetch (Quote ''TCS.NS''), logged_in, [LoginCall, DataCall (Quote ''TCS.NS'')])
   \<and> token_expiry logged_in = Some (1 + hours 23)
   \<and> token_valid logged_in 2
   \<and> data_operation logged_in 2 3 LoginRaises sample_fetch Indices
       = (sample_fetch Indices, logged_in, [DataCall Indices])
   \<and> login_fails LoginRejected
   \<and> data_operation logged_out 0 1 LoginRejected sample_fetch MarketStatus
       = (None, logged_out, [LoginCall])
   \<and> clock_ascending 0 failing_requests
   \<and> run_requests logged_out sample_fetch failing_requests = [None, None]"
  using data_operation_authenticates_first
          [where st = logged_out and t_check = 0 and t_set = 1 and login = "LoginToken ''jwt''"
             and fetch = sample_fetch and operation = "Quote ''TCS.NS''"
             and reqs = failing_requests]
        data_operation_authenticates_first
          [where st = logged_in and t_check = 2 and t_set = 3 and login = LoginRaises
             and fetch = sample_fetch and operation = Indices and reqs = "[]"]
        data_operation_authenticates_first
          [where st = logged_out and t_check = 0 and t_set = 1 and login = LoginRejected
             and fetch = sample_fetch and operation = MarketStatus and reqs = "[]"]
  by (simp add: logged_out_def logged_in_def token_valid_def hours_def failing_requests_def
                data_operation_unfold authenticate_def)

section \<open>Properties of the cache\<close>

text \<open>
  C5. For every key, value and positive ttl, storing the value and reading the key at the
  same clock reading returns the value; at every clock reading after the stored expiry the
  read returns absent, and the cache it leaves still holds the entry (nothing is purged).
\<close>

theorem cache_put_then_get:
  assumes "0 < expiry_minutes"
  shows "fst (get_cached_data (cache_data c now key v expiry_minutes) now key) = Some v
       \<and> (\<forall>later. now + minutes expiry_minutes < later \<longrightarrow>
              get_cached_data (cache_data c now key v expiry_minutes) later key
                = (None, cache_data c now key v expiry_minutes))
       \<and> cache_data c now key v expiry_minutes key = Some (v, now + minutes expiry_minutes)"
  using assms by (simp add: get_cached_data_def cache_data_def minutes_def)

theorem cache_put_then_get_witness:
  "(0::int) < 1
   \<and> fst (get_cached_data (cache_data Map.empty 0 ''stock_AAPL_6mo_1d'' (42::nat) 1) 0
            ''stock_AAPL_6mo_1d'') = Some 42
   \<and> fst (get_cached_data (cache_data Map.empty 0 ''stock_AAPL_6mo_1d'' (42::nat) 1) 60000001
            ''stock_AAPL_6mo_1d'') = None
   \<and> snd (get_cached_data (cache_data Map.empty 0 ''stock_AAPL_6mo_1d'' (42::nat) 1) 60000001
            ''stock_AAPL_6mo_1d'') ''stock_AAPL_6mo_1d'' = Some (42, 60000000)"
  using cache_put_then_get [of 1 Map.empty 0 "''stock_AAPL_6mo_1d''" "42::nat"]
  by (simp add: minutes_def)

section \<open>Properties of the indicators\<close>

lemma rolling_mean_length: "length (rolling_mean n xs) = length xs"
  by (simp add: rolling_mean_def)

lemma rolling_mean_nth:
  "i < length xs \<Longrightarrow> rolling_mean n xs ! i =
     (if n = 0 \<or> i + 1 < n then NaN else Num (sum_list (take n (drop (i + 1 - n) xs)) / real n))"
  by (simp add: rolling_mean_def)

lemma rolling_mean_last:
  assumes "0 < n" and "n \<le> length xs"
  shows "iloc_last (rolling_mean n xs) = Some (Num (sum_list (drop (length xs - n) xs) / real n))"
proof -
  have ne: "rolling_mean n xs \<noteq> []"
    using assms by (auto simp: rolling_mean_def)
  have "last (rolling_mean n xs) = rolling_mean n xs ! (length xs - 1)"
    using ne by (simp add: last_conv_nth rolling_mean_length)
  also have "\<dots> = Num (sum_list (take n (drop (length xs - n) xs)) / real n)"
    using assms by (simp add: rolling_mean_nth)
  finally show ?thesis using ne assms by (simp add: iloc_last_def)
qed

text \<open>
  C6. For every close-price series of length at least \<open>n\<close> (\<open>n\<close> positive), SMA(n) is the
  sum of the final \<open>n\<close> closes divided by \<open>n\<close>, and the rolling mean is absent (\<open>NaN\<close>) at
  each of the first \<open>n - 1\<close> positions.
\<close>

theorem sma_is_trailing_mean:
  assumes "0 < n" and "n \<le> length closes"
  shows "sma n closes = Some (Num (sum_list (drop (length closes - n) closes) / real n))
       \<and> length (drop (length closes - n) closes) = n
       \<and> (\<forall>i. i + 1 < n \<longrightarrow> rolling_mean n closes ! i = NaN)"
  using assms rolling_mean_last [OF assms]
  by (simp add: sma_def rolling_mean_nth)

theorem sma_is_trailing_mean_witness:
  "(0::nat) < 3 \<and> (3::nat) \<le> length [1, 2, 3, 4, 5 :: real]
   \<and> sma 3 [1, 2, 3, 4, 5] = Some (Num 4)
   \<and> rolling_mean 3 [1, 2, 3, 4, 5] ! 0 = NaN
   \<and> rolling_mean 3 [1, 2, 3, 4, 5] ! 1 = NaN"
  using sma_is_trailing_mean [of 3 "[1, 2, 3, 4, 5]"]
  by (simp add: rolling_mean_def)

lemma ewm_alpha_range: "1 \<le> n \<Longrightarrow> 0 < ewm_alpha n \<and> ewm_alpha n \<le> 1"
  by (simp add: ewm_alpha_def)

lemma ewm_mean_nth:
  "t < length xs \<Longrightarrow> ewm_mean n xs ! t =
     (\<Sum>i\<le>t. (1 - ewm_alpha n) ^ i * xs ! (t - i)) / (\<Sum>i\<le>t. (1 - ewm_alpha n) ^ i)"
  by (simp add: ewm_mean_def)

lemma ewm_weight_sum_pos:
  assumes "1 \<le> n"
  shows "0 < (\<Sum>i\<le>t. (1 - ewm_alpha n) ^ i)"
proof -
  have w: "0 \<le> 1 - ewm_alpha n" using ewm_alpha_range [OF assms] by simp
  have "(\<Sum>i\<le>t. (1 - ewm_alpha n) ^ i) = 1 + (\<Sum>i<t. (1 - ewm_alpha n) ^ Suc i)"
    by (induction t) simp_all
  moreover have "0 \<le> (\<Sum>i<t. (1 - ewm_alpha n) ^ Suc i)"
    by (rule sum_nonneg) (use w in simp)
  ultimately show ?thesis by linarith
qed

lemma ewm_numerator_step:
  fixes w :: real
  shows "(\<Sum>i\<le>Suc t. w ^ i * xs ! (Suc t - i))
           = xs ! Suc t + w * (\<Sum>i\<le>t. w ^ i * xs ! (t - i))"
proof -
  have "(\<Sum>i\<le>Suc t. w ^ i * xs ! (Suc t - i))
          = w ^ 0 * xs ! (Suc t - 0) + (\<Sum>i\<le>t. w ^ Suc i * xs ! (Suc t - Suc i))"
    by (rule sum.atMost_Suc_shift)
  also have "\<dots> = xs ! Suc t + (\<Sum>i\<le>t. w * (w ^ i * xs ! (t - i)))"
    by (simp add: mult.assoc)
  also have "\<dots> = xs ! Suc t + w * (\<Sum>i\<le>t. w ^ i * xs ! (t - i))"
    by (simp only: sum_distrib_left)
  finally show ?thesis .
qed

lemma ewm_mean_step:
  assumes "1 \<le> n" and "Suc t < length xs"
  shows "ewm_mean n xs ! Suc t =
           (xs ! Suc t
              + (1 - ewm_alpha n) * ((\<Sum>i\<le>t. (1 - ewm_alpha n) ^ i) * ewm_mean n xs ! t))
             / (\<Sum>i\<le>Suc t. (1 - ewm_alpha n) ^ i)"
proof -
  define w where "w = 1 - ewm_alpha n"
  define W where "W = (\<Sum>i\<le>t. w ^ i)"
  define N where "N = (\<Sum>i\<le>t. w ^ i * xs ! (t - i))"
  have Wpos: "0 < W"
    using ewm_weight_sum_pos [OF assms(1), of t] by (simp add: W_def w_def)
  have prev: "ewm_mean n xs ! t = N / W"
    using assms(2) by (simp add: ewm_mean_nth N_def W_def w_def)
  have "W * (N / W) = N" using Wpos by simp
  then have restore: "W * ewm_mean n xs ! t = N" by (simp only: prev)
  have "ewm_mean n xs ! Suc t
          = (\<Sum>i\<le>Suc t. w ^ i * xs ! (Suc t - i)) / (\<Sum>i\<le>Suc t. w ^ i)"
    using assms(2) by (simp only: ewm_mean_nth w_def)
  also have "\<dots> = (xs ! Suc t + w * N) / (\<Sum>i\<le>Suc t. w ^ i)"
    by (simp only: ewm_numerator_step N_def)
  also have "\<dots> = (xs ! Suc t + w * (W * ewm_mean n xs ! t)) / (\<Sum>i\<le>Suc t. w ^ i)"
    by (simp only: restore)
  finally show ?thesis by (simp only: w_def W_def)
qed

lemma ewm_mean_example: "ewm_mean 2 [1, 3] = [1, 5 / 2]"
  by (simp add: ewm_mean_def ewm_alpha_def)

text \<open>
  C7, as stated, fails: the first EMA value is not the mean of the series. For the closes
  1, 3 and span 2 the first value is 1, the first close, while the series mean is 2.
\<close>

theorem ema_first_value_counterexample:
  "ewm_mean 2 [1, 3] ! 0 = 1
   \<and> sum_list [1, 3 :: real] / real (length [1, 3 :: real]) = 2
   \<and> ewm_mean 2 [1, 3] ! 0 \<noteq> sum_list [1, 3 :: real] / real (length [1, 3 :: real])
   \<and> ema 2 [1, 3] = Some (5 / 2)"
  by (simp add: ewm_mean_example ema_def iloc_last_def)

text \<open>
  C7, amended: for every non-empty close-price series and span \<open>n\<close> of at least 1, EMA(n)
  is computed by exponential weighting with the smoothing factor \<open>\<alpha> = 2 / (n + 1)\<close>
  derived from the span, which lies in \<open>(0, 1]\<close>; its first value is the first close of the
  series, and each later value combines the new close with the previous value, whose
  accumulated weight is decayed by \<open>1 - \<alpha>\<close>. The indicator is the last value.
\<close>

theorem ema_exponential_weighting:
  assumes "1 \<le> n" and "closes \<noteq> []"
  shows "ewm_alpha n = 2 / (real n + 1) \<and> 0 < ewm_alpha n \<and> ewm_alpha n \<le> 1
       \<and> length (ewm_mean n closes) = length closes
       \<and> ewm_mean n closes ! 0 = closes ! 0
       \<and> (\<forall>t. Suc t < length closes \<longrightarrow>
              ewm_mean n closes ! Suc t =
                (closes ! Suc t
                   + (1 - ewm_alpha n)
                       * ((\<Sum>i\<le>t. (1 - ewm_alpha n) ^ i) * ewm_mean n closes ! t))
                  / (\<Sum>i\<le>Suc t. (1 - ewm_alpha n) ^ i))
       \<and> ema n closes = Some (last (ewm_mean n closes))"
proof -
  have alpha: "ewm_alpha n = 2 / (real n + 1)"
    by (simp only: ewm_alpha_def)
  have len: "length (ewm_mean n closes) = length closes"
    by (simp add: ewm_mean_def)
  have first: "ewm_mean n closes ! 0 = closes ! 0"
    using assms(2) by (simp add: ewm_mean_nth)
  have ne: "ewm_mean n closes \<noteq> []"
    using assms(2) by (simp add: ewm_mean_def)
  have final: "ema n closes = Some (last (ewm_mean n closes))"
    using assms(1) ne by (simp add: ema_def iloc_last_def)
  have step: "\<forall>t. Suc t < length closes \<longrightarrow>
              ewm_mean n closes ! Suc t =
                (closes ! Suc t
                   + (1 - ewm_alpha n)
                       * ((\<Sum>i\<le>t. (1 - ewm_alpha n) ^ i) * ewm_mean n closes ! t))
                  / (\<Sum>i\<le>Suc t. (1 - ewm_alpha n) ^ i)"
    using ewm_mean_step [OF assms(1)] by blast
  from alpha ewm_alpha_range [OF assms(1)] len first step final show ?thesis
    by blast
qed

theorem ema_exponential_weighting_witness:
  "(1::nat) \<le> 2 \<and> [1, 3 :: real] \<noteq> []
   \<and> ewm_alpha 2 = 2 / 3
   \<and> ewm_mean 2 [1, 3] ! 0 = 1
   \<and> ema 2 [1, 3] = Some (5 / 2)"
proof -
  have p1: "(1::nat) \<le> 2" by simp
  have p2: "[1, 3 :: real] \<noteq> []" by simp
  note t = ema_exponential_weighting [OF p1 p2]
  from t have first: "ewm_mean 2 [1, 3] ! 0 = [1, 3 :: real] ! 0" by blast
  from t have final: "ema 2 [1, 3] = Some (last (ewm_mean 2 [1, 3]))" by blast
  have a: "ewm_alpha 2 = 2 / 3" by (simp add: ewm_alpha_def)
  from p1 p2 a first final show ?thesis
    by (simp add: ewm_mean_example)
qed

lemma diff_length: "length (diff prices) = length prices"
  by (simp add: diff_def)

lemma diff_nth:
  "i < length prices \<Longrightarrow>
     diff prices ! i = (if i = 0 then NaN else Num (prices ! i - prices ! (i - 1)))"
  by (simp add: diff_def)

lemma rsi_series_length: "length (rsi_series prices period) = length prices"
  by (simp add: rsi_series_def Let_def rolling_mean_length diff_length)

lemma rsi_series_nth:
  assumes "i < length prices"
  shows "rsi_series prices period ! i =
           fsub (Num 100)
             (fdiv (Num 100)
                (fadd (Num 1)
                   (fdiv (rolling_mean period (map positive_part (diff prices)) ! i)
                         (rolling_mean period (map negative_part (diff prices)) ! i))))"
  using assms by (simp add: rsi_series_def Let_def rolling_mean_length diff_length)

lemma calculate_rsi_last:
  assumes "prices \<noteq> []"
  shows "calculate_rsi prices period = Some (rsi_series prices period ! (length prices - 1))"
proof -
  have ne: "rsi_series prices period \<noteq> []"
    using assms rsi_series_length [of prices period] by (metis length_0_conv)
  then show ?thesis
    by (simp add: calculate_rsi_def iloc_last_def last_conv_nth rsi_series_length)
qed

lemma sum_list_all_zero: "(\<forall>x \<in> set xs. x = (0::real)) \<Longrightarrow> sum_list xs = 0"
  by (induction xs) auto

lemma sum_list_some_positive:
  "(\<forall>x \<in> set xs. (0::real) \<le> x) \<Longrightarrow> y \<in> set xs \<Longrightarrow> 0 < y \<Longrightarrow> 0 < sum_list xs"
proof (induction xs)
  case Nil
  then show ?case by simp
next
  case (Cons a xs)
  have rest: "0 \<le> sum_list xs" using Cons.prems(1) by (simp add: sum_list_nonneg)
  show ?case
  proof (cases "y = a")
    case True
    then show ?thesis using rest Cons.prems(3) by simp
  next
    case False
    then have "0 < sum_list xs" using Cons by auto
    moreover have "0 \<le> a" using Cons.prems(1) by simp
    ultimately show ?thesis by simp
  qed
qed

lemma positive_part_nonneg: "0 \<le> positive_part d"
  by (cases d) auto

lemma window_elements:
  assumes "x \<in> set (drop k xs)"
  shows "\<exists>i. k \<le> i \<and> i < length xs \<and> x = xs ! i"
proof -
  from assms obtain j where j: "j < length (drop k xs)" and x: "x = drop k xs ! j"
    by (auto simp: in_set_conv_nth)
  have "k + j < length xs" using j by simp
  moreover have "x = xs ! (k + j)" using x j by simp
  ultimately show ?thesis by (intro exI [of _ "k + j"]) simp
qed

lemma rsi_window_values:
  assumes "0 < period" and "period \<le> length prices"
  shows "rsi_series prices period ! (length prices - 1) =
           fsub (Num 100)
             (fdiv (Num 100)
                (fadd (Num 1)
                   (fdiv (Num (sum_list (drop (length prices - period)
                                          (map positive_part (diff prices))) / real period))
                         (Num (sum_list (drop (length prices - period)
                                          (map negative_part (diff prices))) / real period)))))"
proof -
  have last_index: "length prices - 1 < length prices" using assms by simp
  have shift: "length prices - 1 + 1 - period = length prices - period" using assms by simp
  have full: "take period (drop (length prices - period) xs) = drop (length prices - period) xs"
    if "length xs = length prices" for xs :: "real list"
    using that assms by simp
  have g: "rolling_mean period (map positive_part (diff prices)) ! (length prices - 1)
             = Num (sum_list (drop (length prices - period) (map positive_part (diff prices)))
                      / real period)"
    using assms last_index full [of "map positive_part (diff prices)"]
    by (simp add: rolling_mean_nth diff_length shift)
  have l: "rolling_mean period (map negative_part (diff prices)) ! (length prices - 1)
             = Num (sum_list (drop (length prices - period) (map negative_part (diff prices)))
                      / real period)"
    using assms last_index full [of "map negative_part (diff prices)"]
    by (simp add: rolling_mean_nth diff_length shift)
  show ?thesis
    by (simp only: rsi_series_nth [OF last_index] g l)
qed

text \<open>
  C4, as stated, fails: a trailing window without negative deltas may also be without
  positive ones. For fifteen equal closes the average gain and the average loss are both
  0, their quotient is \<open>nan\<close>, and so is the RSI (no error is raised).
\<close>

theorem rsi_flat_prices_counterexample:
  "map negative_part (diff flat_prices) = [0, 0, 0, 0, 0, 0, 0, 0, 0, 0, 0, 0, 0, 0, 0]
   \<and> calculate_rsi flat_prices 14 = Some NaN
   \<and> calculate_rsi flat_prices 14 \<noteq> Some (Num 100)"
proof -
  have d: "diff flat_prices = [NaN, Num 0, Num 0, Num 0, Num 0, Num 0, Num 0, Num 0, Num 0,
                               Num 0, Num 0, Num 0, Num 0, Num 0, Num 0]"
    by (simp add: diff_def flat_prices_def)
  have len: "length flat_prices = 15" by (simp add: flat_prices_def)
  have ne: "flat_prices \<noteq> []" by (simp add: flat_prices_def)
  have "rsi_series flat_prices 14 ! (length flat_prices - 1) = NaN"
    by (subst rsi_window_values) (simp_all add: len d fsub_def)
  then have "calculate_rsi flat_prices 14 = Some NaN"
    by (simp only: calculate_rsi_last [OF ne])
  then show ?thesis by (simp add: d)
qed

text \<open>
  C4, amended: for every close-price series of at least \<open>period\<close> points (14 in the code)
  whose trailing window contains no negative delta and at least one positive delta, the
  RSI computation returns the value 100 (and no division error is raised: the quotient by
  the zero average loss is \<open>inf\<close>).
\<close>

theorem rsi_no_losses_some_gain:
  assumes "0 < period" and "period \<le> length prices"
      and "\<forall>i. length prices - period \<le> i \<and> i < length prices \<and> 0 < i
                \<longrightarrow> prices ! (i - 1) \<le> prices ! i"
      and "\<exists>i. length prices - period \<le> i \<and> i < length prices \<and> 0 < i
                \<and> prices ! (i - 1) < prices ! i"
  shows "calculate_rsi prices period = Some (Num 100)"
proof -
  let ?k = "length prices - period"
  let ?G = "map positive_part (diff prices)"
  let ?L = "map negative_part (diff prices)"
  have ne: "prices \<noteq> []" using assms(1,2) by auto
  have no_loss: "\<forall>x \<in> set (drop ?k ?L). x = 0"
  proof
    fix x assume xin: "x \<in> set (drop ?k ?L)"
    from window_elements [OF xin]
    obtain i where i: "?k \<le> i" "i < length ?L" "x = ?L ! i"
      by blast
    then have il: "i < length prices" by (simp add: diff_length)
    show "x = 0"
    proof (cases "i = 0")
      case True
      then show ?thesis using i(3) il by (simp add: diff_length diff_nth)
    next
      case False
      then have "prices ! (i - 1) \<le> prices ! i" using assms(3) i(1) il by simp
      then show ?thesis using i(3) il False by (simp add: diff_length diff_nth)
    qed
  qed
  have loss0: "sum_list (drop ?k ?L) = 0"
    using no_loss by (rule sum_list_all_zero)
  have gains_nonneg: "\<forall>x \<in> set (drop ?k ?G). 0 \<le> x"
    using positive_part_nonneg by (auto dest!: in_set_dropD)
  obtain i where i: "?k \<le> i" "i < length prices" "0 < i" "prices ! (i - 1) < prices ! i"
    using assms(4) by blast
  have gi: "?G ! i = prices ! i - prices ! (i - 1)"
    using i by (simp add: diff_length diff_nth)
  have "drop ?k ?G ! (i - ?k) = ?G ! i"
    using i by (simp add: diff_length)
  moreover have "i - ?k < length (drop ?k ?G)"
    using i by (simp add: diff_length)
  ultimately have mem: "?G ! i \<in> set (drop ?k ?G)"
    by (metis nth_mem)
  have gpos: "0 < sum_list (drop ?k ?G)"
    using gains_nonneg mem by (rule sum_list_some_positive) (use gi i(4) in simp)
  have "rsi_series prices period ! (length prices - 1) =
          fsub (Num 100)
            (fdiv (Num 100)
               (fadd (Num 1)
                  (fdiv (Num (sum_list (drop ?k ?G) / real period))
                        (Num (sum_list (drop ?k ?L) / real period)))))"
    by (rule rsi_window_values [OF assms(1,2)])
  also have "\<dots> = Num 100"
    using gpos assms(1) by (simp add: loss0 fsub_def)
  finally show ?thesis
    by (simp only: calculate_rsi_last [OF ne])
qed

theorem rsi_no_losses_some_gain_witness:
  "(0::nat) < 14 \<and> 14 \<le> length rising_prices
   \<and> rising_prices ! (14 - 1) < rising_prices ! 14
   \<and> calculate_rsi rising_prices 14 = Some (Num 100)"
proof -
  have p1: "(0::nat) < 14" by simp
  have len: "length rising_prices = 15" by (simp add: rising_prices_def)
  have p2: "14 \<le> length rising_prices" by (simp add: len)
  have srt: "sorted rising_prices" by (simp add: rising_prices_def)
  have p3: "\<forall>i. length rising_prices - 14 \<le> i \<and> i < length rising_prices \<and> 0 < i
                \<longrightarrow> rising_prices ! (i - 1) \<le> rising_prices ! i"
    using srt by (auto intro: sorted_nth_mono)
  have up: "rising_prices ! (14 - 1) < rising_prices ! 14"
    by (simp add: rising_prices_def)
  have p4: "\<exists>i. length rising_prices - 14 \<le> i \<and> i < length rising_prices \<and> 0 < i
                \<and> rising_prices ! (i - 1) < rising_prices ! i"
    using up by (intro exI [of _ 14]) (simp add: len)
  from rsi_no_losses_some_gain [OF p1 p2 p3 p4] p1 p2 up show ?thesis
    by blast
qed

end
